theory Spec2Isabelle
  imports Main
begin

section \<open>The configuration document\<close>

text \<open>
  The document is what \<^verbatim>\<open>yaml.safe_load\<close> returns: a dict with the keys
  \<^verbatim>\<open>groups\<close> and \<^verbatim>\<open>adlists\<close>, whose entries are dicts again. A key of
  a dict may be absent, and the code reads keys both with \<^verbatim>\<open>d[k]\<close> (KeyError when
  absent) and with \<^verbatim>\<open>d.get(k, default)\<close>; so every key is an option here, \<open>None\<close>
  meaning that the dict has no such key. Values have the types the file format
  gives them (strings, booleans, sequences); top-level keys other than the two are
  never read and are left out.
\<close>

record group_spec =
  g_name :: "string option"
  g_enabled :: "bool option"
  g_description :: "string option"

record adlist_spec =
  a_url :: "string option"
  a_enabled :: "bool option"
  a_description :: "string option"
  a_groups :: "string list option"

record document =
  doc_groups :: "group_spec list option"
  doc_adlists :: "adlist_spec list option"

section \<open>Exceptions\<close>

datatype error =
    KeyError string
  | TypeError string
  | FileNotFoundError string
  | ConfigFileError string
  | DatabaseError string
  | YAMLError
  | SystemExit nat

text \<open>\<^verbatim>\<open>str(e)\<close>, as the f-string of the command line prints it. A KeyError prints
  the repr of its key, which for a string adds single quotes.\<close>

fun error_str :: "error \<Rightarrow> string" where
  "error_str (KeyError k) = CHR 0x27 # k @ [CHR 0x27]"
| "error_str (TypeError m) = m"
| "error_str (FileNotFoundError m) = m"
| "error_str (ConfigFileError m) = m"
| "error_str (DatabaseError m) = m"
| "error_str YAMLError = []"
| "error_str (SystemExit n) = []"

text \<open>
  \<^verbatim>\<open>raise FileNotFoundError(message="...")\<close>: the operand of \<^verbatim>\<open>raise\<close> is
  evaluated first, and the builtin FileNotFoundError takes no keyword argument, so the
  call itself raises TypeError and no FileNotFoundError is ever constructed.
  \<^verbatim>\<open>FileNotFoundError("...")\<close> with a positional argument constructs the exception.
\<close>

definition FileNotFoundError_message :: "string \<Rightarrow> error" where
  "FileNotFoundError_message m = TypeError ''FileNotFoundError() takes no keyword arguments''"

section \<open>The store\<close>

text \<open>
  The tables the import writes, rows in insertion order.
  \<^item> \<^verbatim>\<open>group(id, enabled, name, description)\<close>
  \<^item> \<^verbatim>\<open>adlist(id, address, enabled, comment)\<close>
  \<^item> \<^verbatim>\<open>adlist_by_group(adlist_id, group_id)\<close>
  \<open>schema\<close> tells whether the tables exist; a file of length zero, as
  \<^verbatim>\<open>touch\<close> creates it, is the store \<open>blank\<close>.
\<close>

type_synonym group_row = "int \<times> bool \<times> string \<times> string option"
type_synonym adlist_row = "int \<times> string \<times> bool \<times> string option"
type_synonym link_row = "int \<times> int"

record store =
  schema :: bool
  group_tbl :: "group_row list"
  adlist_tbl :: "adlist_row list"
  adlist_by_group_tbl :: "link_row list"

definition blank :: store where
  "blank = \<lparr>schema = False, group_tbl = [], adlist_tbl = [], adlist_by_group_tbl = []\<rparr>"

text \<open>
  A connection: \<open>durable\<close> is what the file holds, \<open>txn\<close> is what the connection
  sees (the file plus the uncommitted inserts). \<open>budget\<close> is the environment's part:
  \<open>None\<close> when no insert of this run fails, \<open>Some n\<close> when \<open>n\<close> inserts succeed and the
  next one fails (a constraint violation, an I/O failure).
\<close>

record conn =
  durable :: store
  txn :: store
  budget :: "nat option"

datatype insert_req =
    IntoGroup bool string "string option"
  | IntoAdlist string bool "string option"
  | IntoAdlistByGroup int int

text \<open>
  Modelled from the spec: \<^verbatim>\<open>Database.insert\<close> of gravityyaml/database.py, which is
  not among the sources, and the tables of database.sql, which is not either. It is the
  \<^verbatim>\<open>cursor.execute("INSERT INTO ...")\<close> followed by \<^verbatim>\<open>cursor.lastrowid\<close> of
  src/gravityyaml.py: the row is appended with a generated id, which is returned; ids
  count from 1 in each table; nothing is de-duplicated.
\<close>

definition db_insert :: "conn \<Rightarrow> insert_req \<Rightarrow> error + (int \<times> conn)" where
  "db_insert c r =
     (if budget c = Some 0 then Inl (DatabaseError ''insert failed'')
      else if \<not> schema (txn c) then Inl (DatabaseError ''no such table'')
      else
        let c' = c\<lparr>budget := map_option (\<lambda>n. n - 1) (budget c)\<rparr>; t = txn c in
        (case r of
           IntoGroup e n d \<Rightarrow>
             let i = int (length (group_tbl t)) + 1
             in Inr (i, c'\<lparr>txn := t\<lparr>group_tbl := group_tbl t @ [(i, e, n, d)]\<rparr>\<rparr>)
         | IntoAdlist a e d \<Rightarrow>
             let i = int (length (adlist_tbl t)) + 1
             in Inr (i, c'\<lparr>txn := t\<lparr>adlist_tbl := adlist_tbl t @ [(i, a, e, d)]\<rparr>\<rparr>)
         | IntoAdlistByGroup a g \<Rightarrow>
             let i = int (length (adlist_by_group_tbl t)) + 1
             in Inr (i, c'\<lparr>txn := t\<lparr>adlist_by_group_tbl := adlist_by_group_tbl t @ [(a, g)]\<rparr>\<rparr>)))"

text \<open>\<^verbatim>\<open>commit\<close>: the uncommitted inserts reach the file.\<close>

definition db_commit :: "conn \<Rightarrow> conn" where
  "db_commit c = c\<lparr>durable := txn c\<rparr>"

text \<open>\<^verbatim>\<open>loadFile\<close> / \<^verbatim>\<open>executescript\<close> of the schema: the tables exist
  afterwards, in the file too (a script runs outside the transaction).\<close>

definition loadFile :: "conn \<Rightarrow> conn" where
  "loadFile c = c\<lparr>durable := (durable c)\<lparr>schema := True\<rparr>, txn := (txn c)\<lparr>schema := True\<rparr>\<rparr>"

section \<open>The import loops\<close>

text \<open>
  The state of the body of \<^verbatim>\<open>populate_database\<close>: the dict \<^verbatim>\<open>group_index\<close>,
  the connection, and the lines printed so far.
\<close>

record istate =
  group_index :: "string \<rightharpoonup> int"
  cn :: conn
  printed :: "string list"

definition warning :: "string \<Rightarrow> string \<Rightarrow> string" where
  "warning grp url =
     ''WARNING - Group '' @ grp @ '' referenced by adlist '' @ url @ '' does not exist''"

text \<open>
  \<^verbatim>\<open>for group in self._data["groups"]\<close>. The right-hand side of the assignment is
  evaluated first: \<^verbatim>\<open>group["name"]\<close> among the values raises KeyError before
  anything is inserted.
\<close>

fun insert_groups :: "group_spec list \<Rightarrow> istate \<Rightarrow> (error + unit) \<times> istate" where
  "insert_groups [] s = (Inr (), s)"
| "insert_groups (grp # rest) s =
     (case g_name grp of
        None \<Rightarrow> (Inl (KeyError ''name''), s)
      | Some name \<Rightarrow>
          (case db_insert (cn s)
                  (IntoGroup (case g_enabled grp of None \<Rightarrow> True | Some e \<Rightarrow> e)
                     name (g_description grp)) of
             Inl e \<Rightarrow> (Inl e, s)
           | Inr (rowid, c) \<Rightarrow>
               insert_groups rest
                 (s\<lparr>group_index := (group_index s)(name \<mapsto> rowid), cn := c\<rparr>)))"

text \<open>\<^verbatim>\<open>for group in adlist["groups"]\<close>, for the adlist with id \<open>list_id\<close> and
  url \<open>url\<close>.\<close>

fun link_groups :: "int \<Rightarrow> string \<Rightarrow> string list \<Rightarrow> istate \<Rightarrow> (error + unit) \<times> istate" where
  "link_groups list_id url [] s = (Inr (), s)"
| "link_groups list_id url (grp # rest) s =
     (case group_index s grp of
        None \<Rightarrow> link_groups list_id url rest (s\<lparr>printed := printed s @ [warning grp url]\<rparr>)
      | Some group_id \<Rightarrow>
          if group_id = 0 then link_groups list_id url rest s
          else
            (case db_insert (cn s) (IntoAdlistByGroup list_id group_id) of
               Inl e \<Rightarrow> (Inl e, s)
             | Inr (_, c) \<Rightarrow> link_groups list_id url rest (s\<lparr>cn := c\<rparr>)))"

text \<open>\<^verbatim>\<open>for adlist in self._data["adlists"]\<close>.\<close>

fun insert_adlists :: "adlist_spec list \<Rightarrow> istate \<Rightarrow> (error + unit) \<times> istate" where
  "insert_adlists [] s = (Inr (), s)"
| "insert_adlists (adlist # rest) s =
     (case a_url adlist of
        None \<Rightarrow> (Inl (KeyError ''url''), s)
      | Some url \<Rightarrow>
          (case db_insert (cn s)
                  (IntoAdlist url (case a_enabled adlist of None \<Rightarrow> True | Some e \<Rightarrow> e)
                     (a_description adlist)) of
             Inl e \<Rightarrow> (Inl e, s)
           | Inr (list_id, c) \<Rightarrow>
               (case a_groups adlist of
                  None \<Rightarrow> (Inl (KeyError ''groups''), s\<lparr>cn := c\<rparr>)
                | Some refs \<Rightarrow>
                    (case link_groups list_id url refs (s\<lparr>cn := c\<rparr>) of
                       (Inl e, s') \<Rightarrow> (Inl e, s')
                     | (Inr _, s') \<Rightarrow> insert_adlists rest s'))))"

text \<open>
  The statements under \<^verbatim>\<open>with Database(...) as conn\<close> (and the same statements of
  \<^verbatim>\<open>Application._populate_database\<close>), from the seeding of the index to the commit.
\<close>

definition import_rows :: "document \<Rightarrow> conn \<Rightarrow> (error + unit) \<times> istate" where
  "import_rows doc c =
     (let s0 = \<lparr>group_index = [''Default'' \<mapsto> 0], cn = c, printed = []\<rparr> in
      case doc_groups doc of
        None \<Rightarrow> (Inl (KeyError ''groups''), s0)
      | Some groups \<Rightarrow>
          (case insert_groups groups s0 of
             (Inl e, s1) \<Rightarrow> (Inl e, s1)
           | (Inr _, s1) \<Rightarrow>
               (case doc_adlists doc of
                  None \<Rightarrow> (Inl (KeyError ''adlists''), s1)
                | Some adlists \<Rightarrow>
                    (case insert_adlists adlists s1 of
                       (Inl e, s2) \<Rightarrow> (Inl e, s2)
                     | (Inr _, s2) \<Rightarrow> (Inr (), s2\<lparr>cn := db_commit (cn s2)\<rparr>)))))"

section \<open>Files, and what a run can see of the machine\<close>

text \<open>
  A file is a YAML text (with the value \<^verbatim>\<open>yaml.safe_load\<close> gives for it:
  \<open>None\<close> for an empty document, a dict otherwise), a file \<^verbatim>\<open>safe_load\<close> rejects,
  or a database with its committed content.
\<close>

datatype disk_file =
    YamlFile "document option"
  | BadFile
  | DbFile store

text \<open>
  The machine: the regular files by path, the current date as
  \<^verbatim>\<open>strftime('%Y-%m-%d')\<close> formats it, whether database.sql lies beside the
  script, the lines printed on standard output, and which insert of the run fails (see
  \<open>budget\<close>). Directories, permissions and the failures of the file system calls
  themselves are not part of it.
\<close>

record world =
  files :: "string \<rightharpoonup> disk_file"
  today :: string
  schema_present :: bool
  stdout :: "string list"
  faults :: "nat option"

definition isfile :: "world \<Rightarrow> string \<Rightarrow> bool" where
  "isfile w p = (files w p \<noteq> None)"

text \<open>\<^verbatim>\<open>os.path.join(db_path, "gravity.db")\<close> on POSIX.\<close>

definition path_join :: "string \<Rightarrow> string \<Rightarrow> string" where
  "path_join a b =
     (if a = [] then b else if last a = CHR ''/'' then a @ b else a @ ''/'' @ b)"

text \<open>\<^verbatim>\<open>os.rename(src, dst)\<close> of an existing file: \<open>dst\<close> is replaced when it
  exists.\<close>

definition rename :: "world \<Rightarrow> string \<Rightarrow> string \<Rightarrow> world" where
  "rename w src dst = w\<lparr>files := ((files w)(dst := files w src))(src := None)\<rparr>"

text \<open>\<^verbatim>\<open>pathlib.Path(p).touch()\<close>: a file of length zero when there is none.\<close>

definition touch :: "world \<Rightarrow> string \<Rightarrow> world" where
  "touch w p = (if isfile w p then w else w\<lparr>files := (files w)(p \<mapsto> DbFile blank)\<rparr>)"

text \<open>\<^verbatim>\<open>yaml.safe_load\<close> of an open file. A file of length zero is the empty
  document; a database with tables is not text.\<close>

fun safe_load :: "disk_file \<Rightarrow> error + document option" where
  "safe_load (YamlFile d) = Inr d"
| "safe_load BadFile = Inl YAMLError"
| "safe_load (DbFile st) = (if st = blank then Inr None else Inl YAMLError)"

text \<open>
  \<^verbatim>\<open>sqlite3.connect(path)\<close>, and \<^verbatim>\<open>Database(path).__enter__\<close> (modelled from the
  spec: gravityyaml/database.py is not among the sources): a connection to the database
  in the file, to a new one when there is no file.
\<close>

definition connect :: "world \<Rightarrow> string \<Rightarrow> error + conn" where
  "connect w p =
     (case files w p of
        None \<Rightarrow> Inr \<lparr>durable = blank, txn = blank, budget = faults w\<rparr>
      | Some (DbFile st) \<Rightarrow> Inr \<lparr>durable = st, txn = st, budget = faults w\<rparr>
      | Some _ \<Rightarrow> Inl (DatabaseError ''file is not a database''))"

text \<open>
  Closing the connection (\<^verbatim>\<open>connection.close()\<close>, and the exit of the
  \<^verbatim>\<open>with\<close> block, modelled from the spec as above): the file keeps what was
  committed, and what was inserted and not committed is gone.
\<close>

definition close :: "world \<Rightarrow> string \<Rightarrow> conn \<Rightarrow> world" where
  "close w p c = w\<lparr>files := (files w)(p \<mapsto> DbFile (durable c))\<rparr>"

definition print :: "world \<Rightarrow> string list \<Rightarrow> world" where
  "print w ls = w\<lparr>stdout := stdout w @ ls\<rparr>"

section \<open>class GravityYAML (src/gravityyaml/gravityyaml.py)\<close>

record gravity_yaml =
  data :: "document option"
  db_path :: string
  yaml_path :: string

definition GravityYAML :: "string \<Rightarrow> string \<Rightarrow> gravity_yaml" where
  "GravityYAML yp dp = \<lparr>data = None, db_path = path_join dp ''gravity.db'', yaml_path = yp\<rparr>"

definition init_database :: "gravity_yaml \<Rightarrow> world \<Rightarrow> world" where
  "init_database self w =
     touch
       (if isfile w (db_path self)
        then rename w (db_path self) (db_path self @ ''.old-'' @ today w)
        else w)
       (db_path self)"

text \<open>\<^verbatim>\<open>load_yaml\<close> reads only; \<^verbatim>\<open>self._data\<close> is assigned before the length
  check.\<close>

definition load_yaml :: "gravity_yaml \<Rightarrow> world \<Rightarrow> (error + unit) \<times> gravity_yaml" where
  "load_yaml self w =
     (case files w (yaml_path self) of
        None \<Rightarrow> (Inl (FileNotFoundError_message ''YAML config file could not be found.''), self)
      | Some f \<Rightarrow>
          (case safe_load f of
             Inl e \<Rightarrow> (Inl e, self)
           | Inr d \<Rightarrow>
               (case d of
                  None \<Rightarrow> (Inl (TypeError ''NoneType object is not subscriptable''), self\<lparr>data := d\<rparr>)
                | Some doc \<Rightarrow>
                    (case doc_adlists doc of
                       None \<Rightarrow> (Inl (KeyError ''adlists''), self\<lparr>data := d\<rparr>)
                     | Some adlists \<Rightarrow>
                         if length adlists < 1
                         then (Inl (ConfigFileError ''No ad lists specified''), self\<lparr>data := d\<rparr>)
                         else (Inr (), self\<lparr>data := d\<rparr>)))))"

text \<open>\<^verbatim>\<open>not self._data\<close>: true of \<^verbatim>\<open>None\<close> and of the empty dict.\<close>

fun falsy :: "document option \<Rightarrow> bool" where
  "falsy None = True"
| "falsy (Some doc) = (doc_groups doc = None \<and> doc_adlists doc = None)"

definition populate_database :: "gravity_yaml \<Rightarrow> world \<Rightarrow> (error + unit) \<times> world" where
  "populate_database self w =
     (case data self of
        None \<Rightarrow> (Inl (ConfigFileError ''Config file not loaded. Did you forget to call load_yaml?''), w)
      | Some doc \<Rightarrow>
          if falsy (Some doc)
          then (Inl (ConfigFileError ''Config file not loaded. Did you forget to call load_yaml?''), w)
          else if \<not> schema_present w
          then (Inl (FileNotFoundError ''Could not find database schema''), w)
          else
            (case connect w (db_path self) of
               Inl e \<Rightarrow> (Inl e, w)
             | Inr conn \<Rightarrow>
                 (case import_rows doc (loadFile conn) of
                    (r, s) \<Rightarrow> (r, print (close w (db_path self) (cn s)) (printed s)))))"

definition run :: "gravity_yaml \<Rightarrow> world \<Rightarrow> (error + unit) \<times> world" where
  "run self w =
     (case load_yaml self w of
        (Inl e, self1) \<Rightarrow> (Inl e, w)
      | (Inr _, self1) \<Rightarrow> populate_database self1 (init_database self1 w))"

section \<open>The command line (src/gravityyaml/cli.py)\<close>

datatype exit_key = DEFAULT | DATABASE_ERROR | CONFIG_FILE_ERROR | FILE_ERROR

fun EXIT_CODES :: "exit_key \<Rightarrow> nat" where
  "EXIT_CODES DEFAULT = 1"
| "EXIT_CODES DATABASE_ERROR = 2"
| "EXIT_CODES CONFIG_FILE_ERROR = 3"
| "EXIT_CODES FILE_ERROR = 4"

record args =
  config :: string
  database :: string
  debug :: bool

text \<open>\<^verbatim>\<open>except errors.DatabaseError\<close>.\<close>

fun is_DatabaseError :: "error \<Rightarrow> bool" where
  "is_DatabaseError (DatabaseError m) = True"
| "is_DatabaseError e = False"

text \<open>
  The exit status of the process and the machine it leaves. With \<^verbatim>\<open>--debug\<close> an
  exception is not caught: the interpreter prints the traceback on standard error and
  exits with status 1. A run that returns ends the process with status 0.
\<close>

definition cli :: "args \<Rightarrow> world \<Rightarrow> nat \<times> world" where
  "cli a w =
     (let app = GravityYAML (config a) (database a) in
      case run app w of
        (Inr _, w') \<Rightarrow> (0, w')
      | (Inl e, w') \<Rightarrow>
          if debug a then (1, w')
          else if is_DatabaseError e
          then (EXIT_CODES DATABASE_ERROR, print w' [''FATAL - '' @ error_str e])
          else (EXIT_CODES DEFAULT, print w' [''FATAL - '' @ error_str e]))"

section \<open>class Application (src/gravityyaml.py)\<close>

text \<open>
  The script keeps the sqlite3 connection and the cursor in the object. Its loops
  over the groups and the adlists are those of \<open>import_rows\<close>, statement for statement,
  with \<^verbatim>\<open>cursor.execute("INSERT ...")\<close> and \<^verbatim>\<open>cursor.lastrowid\<close> where the
  package calls \<^verbatim>\<open>conn.insert\<close>. \<^verbatim>\<open>sys.exit(1)\<close> raises SystemExit.
\<close>

record application =
  app_connection :: "conn option"
  app_cursor :: bool
  app_data :: "document option"
  app_db_path :: string
  app_yaml_path :: string

definition Application :: "string \<Rightarrow> string \<Rightarrow> application" where
  "Application yp dp =
     \<lparr>app_connection = None, app_cursor = False, app_data = None,
      app_db_path = path_join dp ''gravity.db'', app_yaml_path = yp\<rparr>"

text \<open>\<^verbatim>\<open>executescript\<close> writes the tables into the file at once.\<close>

definition app_init_database ::
  "application \<Rightarrow> world \<Rightarrow> (error + unit) \<times> application \<times> world" where
  "app_init_database self w =
     (let w1 = (if isfile w (app_db_path self)
                then rename w (app_db_path self) (app_db_path self @ ''.old-'' @ today w)
                else w)
      in if \<not> schema_present w1
         then (Inl (SystemExit 1), self, print w1 [''ERROR - Could not find database schema''])
         else
           (case connect w1 (app_db_path self) of
              Inl e \<Rightarrow> (Inl e, self, w1)
            | Inr c \<Rightarrow>
                (Inr (), self\<lparr>app_connection := Some (loadFile c)\<rparr>,
                 close w1 (app_db_path self) (loadFile c))))"

definition app_load_yaml ::
  "application \<Rightarrow> world \<Rightarrow> (error + unit) \<times> application \<times> world" where
  "app_load_yaml self w =
     (case files w (app_yaml_path self) of
        None \<Rightarrow> (Inl (SystemExit 1), self, print w [''ERROR - Could not find YAML file''])
      | Some f \<Rightarrow>
          (case safe_load f of
             Inl e \<Rightarrow> (Inl e, self, w)
           | Inr d \<Rightarrow>
               (case d of
                  None \<Rightarrow>
                    (Inl (TypeError ''NoneType object is not subscriptable''),
                     self\<lparr>app_data := d\<rparr>, w)
                | Some doc \<Rightarrow>
                    (case doc_adlists doc of
                       None \<Rightarrow> (Inl (KeyError ''adlists''), self\<lparr>app_data := d\<rparr>, w)
                     | Some adlists \<Rightarrow>
                         if length adlists < 1
                         then (Inl (SystemExit 1), self\<lparr>app_data := d\<rparr>,
                               print w [''ERROR - No ad lists specified''])
                         else (Inr (), self\<lparr>app_data := d\<rparr>, w)))))"

text \<open>The file holds what the connection has committed, here as in \<open>close\<close>.\<close>

definition app_populate_database ::
  "application \<Rightarrow> world \<Rightarrow> (error + unit) \<times> application \<times> world" where
  "app_populate_database self w =
     (case app_data self of
        None \<Rightarrow> (Inl (SystemExit 1), self, print w [''ERROR - Config file not loaded''])
      | Some doc \<Rightarrow>
          if falsy (Some doc)
          then (Inl (SystemExit 1), self, print w [''ERROR - Config file not loaded''])
          else
            (case app_connection self of
               None \<Rightarrow>
                 (Inl (SystemExit 1), self,
                  print w [''ERROR - Database has not been initialized''])
             | Some c \<Rightarrow>
                 (case import_rows doc c of
                    (r, s) \<Rightarrow>
                      (r, self\<lparr>app_cursor := True, app_connection := Some (cn s)\<rparr>,
                       print (close w (app_db_path self) (cn s)) (printed s)))))"

text \<open>\<^verbatim>\<open>run\<close>: the \<^verbatim>\<open>finally\<close> clause closes the cursor and the connection
  whether \<^verbatim>\<open>_populate_database\<close> returned or raised; nothing is committed there.\<close>

definition app_run :: "application \<Rightarrow> world \<Rightarrow> (error + unit) \<times> application \<times> world" where
  "app_run self w =
     (case app_load_yaml self w of
        (Inl e, self1, w1) \<Rightarrow> (Inl e, self1, w1)
      | (Inr _, self1, w1) \<Rightarrow>
          (case app_init_database self1 w1 of
             (Inl e, self2, w2) \<Rightarrow> (Inl e, self2, w2)
           | (Inr _, self2, w2) \<Rightarrow>
               (case app_populate_database self2 w2 of
                  (r, self3, w3) \<Rightarrow>
                    (r, self3\<lparr>app_cursor := False, app_connection := None\<rparr>, w3))))"

section \<open>Example inputs\<close>

text \<open>The machine with no file at all, and the default command line.\<close>

definition no_files :: world where
  "no_files = \<lparr>files = Map.empty, today = ''2023-05-01'', schema_present = True,
                stdout = [], faults = None\<rparr>"

definition default_args :: args where
  "default_args = \<lparr>config = ''gravity.yaml'', database = ''/etc/pihole/'', debug = False\<rparr>"

text \<open>A document with one adlist and one group, and the machine that holds it as
  gravity.yaml.\<close>

definition family_doc :: document where
  "family_doc =
     \<lparr>doc_groups = Some [\<lparr>g_name = Some ''Family'', g_enabled = None, g_description = None\<rparr>],
      doc_adlists = Some [\<lparr>a_url = Some ''http://a'', a_enabled = None, a_description = None,
                           a_groups = Some [''Family'']\<rparr>]\<rparr>"

definition with_config :: "document \<Rightarrow> world" where
  "with_config doc = no_files\<lparr>files := [''gravity.yaml'' \<mapsto> YamlFile (Some doc)]\<rparr>"

section \<open>What an import is to leave behind\<close>

text \<open>
  The rows the configuration document stands for, written down from the document
  alone: the import loops are compared with these below. A key the code reads with
  \<^verbatim>\<open>d[k]\<close> is read here with the empty value for an absent key; the documents
  concerned have it.
\<close>

definition name_of :: "group_spec \<Rightarrow> string" where
  "name_of g = (case g_name g of None \<Rightarrow> [] | Some n \<Rightarrow> n)"

definition url_of :: "adlist_spec \<Rightarrow> string" where
  "url_of a = (case a_url a of None \<Rightarrow> [] | Some u \<Rightarrow> u)"

definition refs_of :: "adlist_spec \<Rightarrow> string list" where
  "refs_of a = (case a_groups a of None \<Rightarrow> [] | Some rs \<Rightarrow> rs)"

definition groups_of :: "document \<Rightarrow> group_spec list" where
  "groups_of doc = (case doc_groups doc of None \<Rightarrow> [] | Some gs \<Rightarrow> gs)"

definition adlists_of :: "document \<Rightarrow> adlist_spec list" where
  "adlists_of doc = (case doc_adlists doc of None \<Rightarrow> [] | Some as \<Rightarrow> as)"

text \<open>
  A valid document has both sequences, a name on every group, a url and a list of
  group references on every adlist, and at least one adlist. Names need not be
  distinct, and a reference need not name a declared group.
\<close>

definition valid_group :: "group_spec \<Rightarrow> bool" where
  "valid_group g = (g_name g \<noteq> None)"

definition valid_adlist :: "adlist_spec \<Rightarrow> bool" where
  "valid_adlist a = (a_url a \<noteq> None \<and> a_groups a \<noteq> None)"

definition valid_document :: "document \<Rightarrow> bool" where
  "valid_document doc =
     (doc_groups doc \<noteq> None \<and> doc_adlists doc \<noteq> None \<and>
      list_all valid_group (groups_of doc) \<and>
      list_all valid_adlist (adlists_of doc) \<and> adlists_of doc \<noteq> [])"

text \<open>The row of the entry that gets the id \<open>i\<close>.\<close>

definition group_row_of :: "int \<Rightarrow> group_spec \<Rightarrow> group_row" where
  "group_row_of i g =
     (i, (case g_enabled g of None \<Rightarrow> True | Some e \<Rightarrow> e), name_of g, g_description g)"

definition adlist_row_of :: "int \<Rightarrow> adlist_spec \<Rightarrow> adlist_row" where
  "adlist_row_of i a =
     (i, url_of a, (case a_enabled a of None \<Rightarrow> True | Some e \<Rightarrow> e), a_description a)"

text \<open>One row per entry, in the order of the entries, the first one with the id
  \<open>n + 1\<close>.\<close>

fun rows_from :: "(int \<Rightarrow> 'a \<Rightarrow> 'b) \<Rightarrow> nat \<Rightarrow> 'a list \<Rightarrow> 'b list" where
  "rows_from f n [] = []"
| "rows_from f n (x # xs) = f (int n + 1) x # rows_from f (Suc n) xs"

text \<open>The id of the last row of the group table with the name \<open>n\<close>.\<close>

fun find_last_id :: "string \<Rightarrow> group_row list \<Rightarrow> int option" where
  "find_last_id n [] = None"
| "find_last_id n ((i, e, nm, d) # rows) =
     (case find_last_id n rows of
        Some j \<Rightarrow> Some j
      | None \<Rightarrow> if nm = n then Some i else None)"

text \<open>What a group reference links to, given the group table: the last row with
  that name; the id 0 for "Default" when no row has that name; nothing otherwise.\<close>

definition resolve :: "group_row list \<Rightarrow> string \<Rightarrow> int option" where
  "resolve rows n =
     (case find_last_id n rows of
        Some i \<Rightarrow> Some i
      | None \<Rightarrow> if n = ''Default'' then Some 0 else None)"

text \<open>The join rows of the adlist \<open>i\<close>: one per reference that resolves to an id
  other than 0. Its warnings: one per reference that does not resolve.\<close>

definition links :: "(string \<Rightarrow> int option) \<Rightarrow> int \<Rightarrow> string list \<Rightarrow> link_row list" where
  "links idx i refs = map (Pair i) (filter (\<lambda>g. g \<noteq> 0) (List.map_filter idx refs))"

definition warns :: "(string \<Rightarrow> int option) \<Rightarrow> string \<Rightarrow> string list \<Rightarrow> string list" where
  "warns idx url refs = map (\<lambda>r. warning r url) (filter (\<lambda>r. idx r = None) refs)"

fun all_links :: "(string \<Rightarrow> int option) \<Rightarrow> nat \<Rightarrow> adlist_spec list \<Rightarrow> link_row list" where
  "all_links idx n [] = []"
| "all_links idx n (a # as) = links idx (int n + 1) (refs_of a) @ all_links idx (Suc n) as"

definition all_warns :: "(string \<Rightarrow> int option) \<Rightarrow> adlist_spec list \<Rightarrow> string list" where
  "all_warns idx as = concat (map (\<lambda>a. warns idx (url_of a) (refs_of a)) as)"

definition imported :: "document \<Rightarrow> store" where
  "imported doc =
     \<lparr>schema = True,
      group_tbl = rows_from group_row_of 0 (groups_of doc),
      adlist_tbl = rows_from adlist_row_of 0 (adlists_of doc),
      adlist_by_group_tbl =
        all_links (resolve (rows_from group_row_of 0 (groups_of doc))) 0 (adlists_of doc)\<rparr>"

definition warnings_of :: "document \<Rightarrow> string list" where
  "warnings_of doc =
     all_warns (resolve (rows_from group_row_of 0 (groups_of doc))) (adlists_of doc)"

text \<open>The machine after a run that went through: the file that was at the path of
  the store is under the archive name, the store holds the import, the warnings are
  printed.\<close>

definition archived :: "world \<Rightarrow> string \<Rightarrow> world" where
  "archived w p = (if isfile w p then rename w p (p @ ''.old-'' @ today w) else w)"

definition after_import :: "world \<Rightarrow> string \<Rightarrow> document \<Rightarrow> world" where
  "after_import w p doc =
     (archived w p)\<lparr>files := (files (archived w p))(p \<mapsto> DbFile (imported doc)),
                     stdout := stdout w @ warnings_of doc\<rparr>"

section \<open>The two programs, from the command line\<close>

text \<open>The package and the script, each on the configuration path and the database
  directory of its command line; the result of the run and the machine it leaves.\<close>

definition package_run :: "string \<Rightarrow> string \<Rightarrow> world \<Rightarrow> (error + unit) \<times> world" where
  "package_run yp dp w = run (GravityYAML yp dp) w"

definition script_run :: "string \<Rightarrow> string \<Rightarrow> world \<Rightarrow> (error + unit) \<times> world" where
  "script_run yp dp w = (case app_run (Application yp dp) w of (r, self, w') \<Rightarrow> (r, w'))"

text \<open>The database in the file at a path, when there is one.\<close>

definition store_at :: "world \<Rightarrow> string \<Rightarrow> store option" where
  "store_at w p = (case files w p of Some (DbFile st) \<Rightarrow> Some st | _ \<Rightarrow> None)"

section \<open>The loops when no insert fails\<close>

lemma link_groups_ok:
  "link_groups i url refs
     \<lparr>group_index = m,
      cn = \<lparr>durable = d,
            txn = \<lparr>schema = True, group_tbl = G, adlist_tbl = A, adlist_by_group_tbl = L\<rparr>,
            budget = None\<rparr>,
      printed = P\<rparr>
   = (Inr (),
      \<lparr>group_index = m,
       cn = \<lparr>durable = d,
             txn = \<lparr>schema = True, group_tbl = G, adlist_tbl = A,
                    adlist_by_group_tbl = L @ links m i refs\<rparr>,
             budget = None\<rparr>,
       printed = P @ warns m url refs\<rparr>)"
proof (induction refs arbitrary: L P)
  case Nil
  show ?case by (simp add: links_def warns_def List.map_filter_simps)
next
  case (Cons r rs)
  show ?case
    by (cases "m r") (simp_all add: Cons.IH db_insert_def links_def warns_def List.map_filter_simps)
qed

lemma insert_adlists_ok:
  "list_all valid_adlist as \<Longrightarrow>
   insert_adlists as
     \<lparr>group_index = m,
      cn = \<lparr>durable = d,
            txn = \<lparr>schema = True, group_tbl = G, adlist_tbl = A, adlist_by_group_tbl = L\<rparr>,
            budget = None\<rparr>,
      printed = P\<rparr>
   = (Inr (),
      \<lparr>group_index = m,
       cn = \<lparr>durable = d,
             txn = \<lparr>schema = True, group_tbl = G,
                    adlist_tbl = A @ rows_from adlist_row_of (length A) as,
                    adlist_by_group_tbl = L @ all_links m (length A) as\<rparr>,
             budget = None\<rparr>,
       printed = P @ all_warns m as\<rparr>)"
proof (induction as arbitrary: A L P)
  case Nil
  show ?case by (simp add: all_warns_def)
next
  case (Cons a as)
  from Cons.prems have va: "valid_adlist a" and rest: "list_all valid_adlist as"
    by simp_all
  from va obtain u rs where a: "a_url a = Some u" "a_groups a = Some rs"
    by (auto simp: valid_adlist_def)
  have u: "url_of a = u" and rs: "refs_of a = rs"
    using a by (simp_all add: url_of_def refs_of_def)
  have ins: "db_insert
      \<lparr>durable = d,
       txn = \<lparr>schema = True, group_tbl = G, adlist_tbl = A, adlist_by_group_tbl = L\<rparr>,
       budget = None\<rparr>
      (IntoAdlist u (case a_enabled a of None \<Rightarrow> True | Some e \<Rightarrow> e) (a_description a))
    = Inr (int (length A) + 1,
        \<lparr>durable = d,
         txn = \<lparr>schema = True, group_tbl = G,
                adlist_tbl = A @ [adlist_row_of (int (length A) + 1) a],
                adlist_by_group_tbl = L\<rparr>,
         budget = None\<rparr>)"
    by (simp add: db_insert_def Let_def adlist_row_of_def u)
  show ?case
    by (simp add: a ins link_groups_ok Cons.IH [OF rest] u rs all_warns_def)
qed

lemma insert_groups_ok:
  "list_all valid_group gs \<Longrightarrow>
   insert_groups gs
     \<lparr>group_index = m,
      cn = \<lparr>durable = d,
            txn = \<lparr>schema = True, group_tbl = G, adlist_tbl = A, adlist_by_group_tbl = L\<rparr>,
            budget = None\<rparr>,
      printed = P\<rparr>
   = (Inr (),
      \<lparr>group_index =
         (\<lambda>n. case find_last_id n (rows_from group_row_of (length G) gs) of
                 Some i \<Rightarrow> Some i
               | None \<Rightarrow> m n),
       cn = \<lparr>durable = d,
             txn = \<lparr>schema = True,
                    group_tbl = G @ rows_from group_row_of (length G) gs,
                    adlist_tbl = A, adlist_by_group_tbl = L\<rparr>,
             budget = None\<rparr>,
       printed = P\<rparr>)"
proof (induction gs arbitrary: G m)
  case Nil
  show ?case by simp
next
  case (Cons g gs)
  from Cons.prems have vg: "valid_group g" and rest: "list_all valid_group gs"
    by simp_all
  from vg obtain n where g: "g_name g = Some n"
    by (auto simp: valid_group_def)
  have nm: "name_of g = n"
    using g by (simp add: name_of_def)
  have ins: "db_insert
      \<lparr>durable = d,
       txn = \<lparr>schema = True, group_tbl = G, adlist_tbl = A, adlist_by_group_tbl = L\<rparr>,
       budget = None\<rparr>
      (IntoGroup (case g_enabled g of None \<Rightarrow> True | Some e \<Rightarrow> e) n (g_description g))
    = Inr (int (length G) + 1,
        \<lparr>durable = d,
         txn = \<lparr>schema = True,
                group_tbl = G @ [group_row_of (int (length G) + 1) g],
                adlist_tbl = A, adlist_by_group_tbl = L\<rparr>,
         budget = None\<rparr>)"
    by (simp add: db_insert_def Let_def group_row_of_def nm)
  have idx: "(\<lambda>x. case find_last_id x (rows_from group_row_of (Suc (length G)) gs) of
                 Some i \<Rightarrow> Some i
               | None \<Rightarrow> (m(n \<mapsto> int (length G) + 1)) x)
      = (\<lambda>x. case find_last_id x (rows_from group_row_of (length G) (g # gs)) of
                 Some i \<Rightarrow> Some i
               | None \<Rightarrow> m x)"
    by (auto simp: fun_eq_iff group_row_of_def nm split: option.splits)
  show ?case
    using idx by (simp add: g ins Cons.IH [OF rest])
qed

lemma import_rows_ok:
  assumes "doc_groups doc \<noteq> None" "doc_adlists doc \<noteq> None"
    "list_all valid_group (groups_of doc)" "list_all valid_adlist (adlists_of doc)"
  shows "import_rows doc
           \<lparr>durable = d,
            txn = \<lparr>schema = True, group_tbl = [], adlist_tbl = [], adlist_by_group_tbl = []\<rparr>,
            budget = None\<rparr>
         = (Inr (),
            \<lparr>group_index = resolve (rows_from group_row_of 0 (groups_of doc)),
             cn = \<lparr>durable = imported doc, txn = imported doc, budget = None\<rparr>,
             printed = warnings_of doc\<rparr>)"
proof -
  from assms obtain gs as where d: "doc_groups doc = Some gs" "doc_adlists doc = Some as"
    by auto
  have gs: "groups_of doc = gs" and as: "adlists_of doc = as"
    using d by (simp_all add: groups_of_def adlists_of_def)
  have idx: "(\<lambda>n. case find_last_id n (rows_from group_row_of 0 gs) of
                      Some i \<Rightarrow> Some i
                    | None \<Rightarrow> [''Default'' \<mapsto> 0] n)
             = resolve (rows_from group_row_of 0 gs)"
    by (auto simp: fun_eq_iff resolve_def split: option.splits)
  have g: "insert_groups gs
      \<lparr>group_index = [''Default'' \<mapsto> 0],
       cn = \<lparr>durable = d,
             txn = \<lparr>schema = True, group_tbl = [], adlist_tbl = [], adlist_by_group_tbl = []\<rparr>,
             budget = None\<rparr>,
       printed = []\<rparr>
    = (Inr (),
       \<lparr>group_index = resolve (rows_from group_row_of 0 gs),
        cn = \<lparr>durable = d,
              txn = \<lparr>schema = True, group_tbl = rows_from group_row_of 0 gs,
                     adlist_tbl = [], adlist_by_group_tbl = []\<rparr>,
              budget = None\<rparr>,
        printed = []\<rparr>)"
    using insert_groups_ok [of gs "[''Default'' \<mapsto> 0]" d "[]" "[]" "[]" "[]"] assms(3) idx
    by (simp add: gs)
  show ?thesis
    using assms(4)
    by (simp add: import_rows_def d g insert_adlists_ok as gs imported_def warnings_of_def
        db_commit_def)
qed

lemma init_database_file: "files (init_database self w) (db_path self) = Some (DbFile blank)"
  by (simp add: init_database_def touch_def rename_def isfile_def)

lemma init_database_archived:
  "init_database self w = touch (archived w (db_path self)) (db_path self)"
  by (simp add: init_database_def archived_def)

lemma archived_fields [simp]:
  "today (archived w p) = today w" "schema_present (archived w p) = schema_present w"
  "stdout (archived w p) = stdout w" "faults (archived w p) = faults w"
  by (simp_all add: archived_def rename_def)

lemma archived_gone [simp]: "files (archived w p) p = None"
  by (auto simp: archived_def rename_def isfile_def)

lemma run_ok:
  assumes "files w (yaml_path self) = Some f" "safe_load f = Inr (Some doc)"
    "valid_document doc" "schema_present w" "faults w = None"
  shows "run self w = (Inr (), after_import w (db_path self) doc)"
proof -
  from assms(3) obtain as where as: "doc_adlists doc = Some as" "as \<noteq> []"
    by (auto simp: valid_document_def adlists_of_def)
  have ld: "load_yaml self w = (Inr (), self\<lparr>data := Some doc\<rparr>)"
    using assms(1,2) as by (cases as) (simp_all add: load_yaml_def)
  have imp: "import_rows doc
           \<lparr>durable = blank\<lparr>schema := True\<rparr>,
            txn = \<lparr>schema = True, group_tbl = [], adlist_tbl = [], adlist_by_group_tbl = []\<rparr>,
            budget = None\<rparr>
         = (Inr (),
            \<lparr>group_index = resolve (rows_from group_row_of 0 (groups_of doc)),
             cn = \<lparr>durable = imported doc, txn = imported doc, budget = None\<rparr>,
             printed = warnings_of doc\<rparr>)"
    using assms(3) by (intro import_rows_ok) (simp_all add: valid_document_def)
  show ?thesis
    using assms(4,5) as
    by (simp add: run_def ld populate_database_def init_database_archived touch_def isfile_def
        connect_def loadFile_def blank_def imp [unfolded blank_def, simplified] close_def
        print_def after_import_def)
qed

lemma app_run_ok:
  assumes "files w (app_yaml_path self) = Some f" "safe_load f = Inr (Some doc)"
    "valid_document doc" "schema_present w" "faults w = None"
  shows "app_run self w =
           (Inr (), self\<lparr>app_data := Some doc, app_cursor := False, app_connection := None\<rparr>,
            after_import w (app_db_path self) doc)"
proof -
  from assms(3) obtain as where as: "doc_adlists doc = Some as" "as \<noteq> []"
    by (auto simp: valid_document_def adlists_of_def)
  have ld: "app_load_yaml self w = (Inr (), self\<lparr>app_data := Some doc\<rparr>, w)"
    using assms(1,2) as by (cases as) (simp_all add: app_load_yaml_def)
  have imp: "import_rows doc
           \<lparr>durable = blank\<lparr>schema := True\<rparr>,
            txn = \<lparr>schema = True, group_tbl = [], adlist_tbl = [], adlist_by_group_tbl = []\<rparr>,
            budget = None\<rparr>
         = (Inr (),
            \<lparr>group_index = resolve (rows_from group_row_of 0 (groups_of doc)),
             cn = \<lparr>durable = imported doc, txn = imported doc, budget = None\<rparr>,
             printed = warnings_of doc\<rparr>)"
    using assms(3) by (intro import_rows_ok) (simp_all add: valid_document_def)
  have ini: "app_init_database (self\<lparr>app_data := Some doc\<rparr>) w =
     (Inr (),
      self\<lparr>app_data := Some doc,
           app_connection := Some \<lparr>durable = blank\<lparr>schema := True\<rparr>,
              txn = \<lparr>schema = True, group_tbl = [], adlist_tbl = [], adlist_by_group_tbl = []\<rparr>,
              budget = None\<rparr>\<rparr>,
      (archived w (app_db_path self))
        \<lparr>files := (files (archived w (app_db_path self)))
                    (app_db_path self \<mapsto> DbFile (blank\<lparr>schema := True\<rparr>))\<rparr>)"
    using assms(4,5)
    by (cases "files w (app_db_path self)")
       (simp_all add: app_init_database_def Let_def archived_def rename_def isfile_def
         connect_def loadFile_def blank_def close_def)
  show ?thesis
    using as
    by (simp add: app_run_def ld ini app_populate_database_def imp close_def print_def
        after_import_def)
qed

section \<open>Validation before the store is touched\<close>

text \<open>
  C4. A run whose configuration document has an empty \<^verbatim>\<open>adlists\<close> sequence raises
  ConfigFileError ("No ad lists specified") out of \<^verbatim>\<open>load_yaml\<close>, and the machine is
  what it was before the run: no file was renamed or created, no row inserted, nothing
  printed.
\<close>

theorem empty_adlists_fails_before_store:
  assumes "files w (yaml_path self) = Some f"
    and "safe_load f = Inr (Some doc)"
    and "doc_adlists doc = Some []"
  shows "run self w = (Inl (ConfigFileError ''No ad lists specified''), w)"
  using assms by (simp add: run_def load_yaml_def)

theorem empty_adlists_fails_before_store_witness:
  "run (GravityYAML ''gravity.yaml'' ''/etc/pihole/'')
       (with_config \<lparr>doc_groups = Some [], doc_adlists = Some []\<rparr>)
   = (Inl (ConfigFileError ''No ad lists specified''),
      with_config \<lparr>doc_groups = Some [], doc_adlists = Some []\<rparr>)"
  using empty_adlists_fails_before_store
    [of "with_config \<lparr>doc_groups = Some [], doc_adlists = Some []\<rparr>"
        "GravityYAML ''gravity.yaml'' ''/etc/pihole/''"
        "YamlFile (Some \<lparr>doc_groups = Some [], doc_adlists = Some []\<rparr>)"
        "\<lparr>doc_groups = Some [], doc_adlists = Some []\<rparr>"]
  by (simp add: with_config_def no_files_def GravityYAML_def)

section \<open>Exit codes\<close>

lemma cli_exit_codes: "fst (cli a w) \<in> {0, 1, 2}"
  by (auto simp: cli_def Let_def split: prod.splits sum.splits)

text \<open>
  C8. With no file at the configuration path, \<^verbatim>\<open>load_yaml\<close> raises TypeError (the
  keyword argument of \<^verbatim>\<open>FileNotFoundError(message=...)\<close>), not a file-not-found
  error with the message, and the process exits with status 1, not 4; with an empty
  \<^verbatim>\<open>adlists\<close> sequence, a configuration-file error, the status is 1 as well, not 3.
\<close>

theorem missing_config_exit_status:
  "fst (load_yaml (GravityYAML ''gravity.yaml'' ''/etc/pihole/'') no_files)
     = Inl (TypeError ''FileNotFoundError() takes no keyword arguments'')
   \<and> fst (cli default_args no_files) = 1
   \<and> fst (cli default_args (with_config \<lparr>doc_groups = Some [], doc_adlists = Some []\<rparr>)) = 1"
  by (simp add: cli_def run_def default_args_def load_yaml_def GravityYAML_def no_files_def
      with_config_def FileNotFoundError_message_def)

section \<open>A run that goes through\<close>

lemma package_run_ok:
  assumes "files w yp = Some f" "safe_load f = Inr (Some doc)"
    "valid_document doc" "schema_present w" "faults w = None"
  shows "package_run yp dp w = (Inr (), after_import w (path_join dp ''gravity.db'') doc)"
  using run_ok [of w "GravityYAML yp dp" f doc] assms
  by (simp add: package_run_def GravityYAML_def)

lemma script_run_ok:
  assumes "files w yp = Some f" "safe_load f = Inr (Some doc)"
    "valid_document doc" "schema_present w" "faults w = None"
  shows "script_run yp dp w = (Inr (), after_import w (path_join dp ''gravity.db'') doc)"
  using app_run_ok [of w "Application yp dp" f doc] assms
  by (simp add: script_run_def Application_def)

lemma store_at_after_import [simp]: "store_at (after_import w p doc) p = Some (imported doc)"
  by (simp add: store_at_def after_import_def)

lemma length_rows_from [simp]: "length (rows_from f n xs) = length xs"
  by (induction xs arbitrary: n) simp_all

lemma rows_from_nth: "i < length xs \<Longrightarrow> rows_from f n xs ! i = f (int (n + i) + 1) (xs ! i)"
proof (induction xs arbitrary: n i)
  case Nil
  then show ?case by simp
next
  case (Cons x xs)
  then show ?case by (cases i) simp_all
qed

text \<open>
  C1. A run on a valid configuration document (which has at least one adlist), with the
  schema in place and no failing insert, returns, and the store it leaves has one group
  row per entry of \<^verbatim>\<open>groups\<close> and one adlist row per entry of \<^verbatim>\<open>adlists\<close>, in
  the order of the document, with the ids 1, 2, ...; the script does the same.
\<close>

theorem one_row_per_entry:
  assumes "files w yp = Some f" and "safe_load f = Inr (Some doc)"
    and "valid_document doc" and "schema_present w" and "faults w = None"
  shows "fst (package_run yp dp w) = Inr ()
    \<and> map_option group_tbl (store_at (snd (package_run yp dp w)) (path_join dp ''gravity.db''))
        = Some (rows_from group_row_of 0 (groups_of doc))
    \<and> map_option adlist_tbl (store_at (snd (package_run yp dp w)) (path_join dp ''gravity.db''))
        = Some (rows_from adlist_row_of 0 (adlists_of doc))
    \<and> map_option (length \<circ> group_tbl)
          (store_at (snd (package_run yp dp w)) (path_join dp ''gravity.db''))
        = Some (length (groups_of doc))
    \<and> map_option (length \<circ> adlist_tbl)
          (store_at (snd (package_run yp dp w)) (path_join dp ''gravity.db''))
        = Some (length (adlists_of doc))
    \<and> script_run yp dp w = package_run yp dp w"
  by (simp add: package_run_ok [OF assms] script_run_ok [OF assms] imported_def)

theorem one_row_per_entry_witness:
  "fst (package_run ''gravity.yaml'' ''/etc/pihole/'' (with_config family_doc)) = Inr ()
    \<and> map_option group_tbl
        (store_at (snd (package_run ''gravity.yaml'' ''/etc/pihole/'' (with_config family_doc)))
           ''/etc/pihole/gravity.db'')
        = Some [(1, True, ''Family'', None)]
    \<and> map_option adlist_tbl
        (store_at (snd (package_run ''gravity.yaml'' ''/etc/pihole/'' (with_config family_doc)))
           ''/etc/pihole/gravity.db'')
        = Some [(1, ''http://a'', True, None)]"
  using one_row_per_entry [of "with_config family_doc" "''gravity.yaml''"
      "YamlFile (Some family_doc)" family_doc "''/etc/pihole/''"]
  by (simp add: with_config_def no_files_def family_doc_def valid_document_def groups_of_def
      adlists_of_def valid_group_def valid_adlist_def path_join_def group_row_of_def
      adlist_row_of_def name_of_def url_of_def)

end
